theory Spec2Isabelle
  imports Main "HOL-Library.Sublist" "HOL-Library.Char_ord" "HOL-Library.List_Lexorder"
begin

unbundle bit_operations_syntax

text \<open>
  The survivor pool of \<open>survivor_app.py\<close>: the score feed and its normalisation
  (\<open>get_sports_data\<close>), the teams a player may still pick, the status of a pick, the
  picks board behind the reveal switch, password hashes and registration. The functions
  of the script keep their names; the blocks of the page are named after the variable
  they fill. What lies outside the script is an argument: the network is a function from
  the URL to what the request gives, the spreadsheet is a value passed in and returned,
  and the caches of the page only repeat the result of an earlier call.
\<close>

section \<open>Python values\<close>

text \<open>
  A Python \<open>str\<close> is modelled by the list of its UTF-8 bytes, so \<open>str.encode\<close> is the
  identity and a text without non-ASCII letters is its own character list. Cell values of
  the spreadsheet are the strings that \<open>str(...)\<close> gives. Every exception the script
  can raise is a value of \<open>error\<close>.

  \<open>py_lower\<close>, \<open>py_strip\<close> and \<open>py_int\<close> are \<open>str.lower\<close>, \<open>str.strip\<close> and
  \<open>int\<close> on ASCII text (for \<open>int\<close>, of at most 4300 digits): they fold the letters A to
  Z, strip the ASCII white space and read the ASCII digits, and leave every other byte
  alone, where Python goes by the Unicode tables. The status of a pick, which compares
  texts of the sheet with texts of the feed, does not use them on other text (see there).
\<close>

datatype error =
    RequestError | JSONDecodeError | KeyError | IndexError | ValueError
  | ReError | WorksheetNotFound | GSpreadException | APIError

definition lower_char :: "char \<Rightarrow> char" where
  "lower_char c =
     (if (65::nat) \<le> of_char c \<and> of_char c \<le> (90::nat)
      then char_of (of_char c + (32::nat)) else c)"

definition py_lower :: "string \<Rightarrow> string" where
  "py_lower s = map lower_char s"

definition is_ascii :: "string \<Rightarrow> bool" where
  "is_ascii s = list_all (\<lambda>c. of_char c < (128::nat)) s"

definition is_space :: "char \<Rightarrow> bool" where
  "is_space c = (of_char c \<in> set [9, 10, 11, 12, 13, 28, 29, 30, 31, 32 :: nat])"

definition py_strip :: "string \<Rightarrow> string" where
  "py_strip s = rev (dropWhile is_space (rev (dropWhile is_space s)))"

text \<open>\<open>sub in s\<close> on strings: \<open>sub\<close> occurs in \<open>s\<close> as a contiguous block.\<close>

fun py_in :: "string \<Rightarrow> string \<Rightarrow> bool" where
  "py_in sub [] = (sub = [])"
| "py_in sub (c # cs) = (prefix sub (c # cs) \<or> py_in sub cs)"

text \<open>
  \<open>int(s)\<close> on a string: surrounding whitespace, an optional sign, then decimal digits
  with single underscores allowed between digits; anything else raises ValueError.
\<close>

definition is_digit :: "char \<Rightarrow> bool" where
  "is_digit c = ((48::nat) \<le> of_char c \<and> of_char c \<le> (57::nat))"

definition digit_val :: "char \<Rightarrow> int" where
  "digit_val c = int (of_char c) - 48"

fun parse_digits :: "bool \<Rightarrow> int \<Rightarrow> string \<Rightarrow> int option" where
  "parse_digits prev acc [] = (if prev then Some acc else None)"
| "parse_digits prev acc (c # cs) =
     (if is_digit c then parse_digits True (10 * acc + digit_val c) cs
      else if c = CHR ''_'' \<and> prev then parse_digits False acc cs
      else None)"

definition py_int :: "string \<Rightarrow> int option" where
  "py_int s =
     (case py_strip s of
        [] \<Rightarrow> None
      | c # cs \<Rightarrow>
          if c = CHR ''-'' then map_option uminus (parse_digits False 0 cs)
          else if c = CHR ''+'' then parse_digits False 0 cs
          else parse_digits False 0 (c # cs))"

text \<open>\<open>str(n)\<close> on an integer, as the f-string of the score column prints it.\<close>

fun show_nat :: "nat \<Rightarrow> string" where
  "show_nat n =
     (if n < 10 then [char_of (48 + n)]
      else show_nat (n div 10) @ [char_of (48 + n mod 10)])"

declare show_nat.simps [simp del]

definition py_str_int :: "int \<Rightarrow> string" where
  "py_str_int i = (if i < 0 then CHR ''-'' # show_nat (nat (- i)) else show_nat (nat i))"

section \<open>The score feed and \<open>get_sports_data\<close>\<close>

text \<open>One row of the frame \<open>get_sports_data\<close> returns, with its six columns.\<close>

record game =
  team_a :: string
  team_b :: string
  winner :: string
  status :: string
  score :: string
  locked :: bool

text \<open>
  What the script reads of the feed. An event holds the description and the state token
  of its status and the competitors of its first competition, each with a display name
  and a score still as text; \<open>BrokenEvent e\<close> is an event on which one of the
  subscripts raises \<open>e\<close>. A request ends in an exception of \<open>requests.get\<close>, a body
  that is not JSON (or a document on which the block raises before its loop), a document
  without the key \<open>events\<close>, or a list of events.
\<close>

record competitor =
  display_name :: string
  comp_score :: string

datatype raw_event =
    RawEvent (ev_description: string) (ev_state: string) (ev_competitors: "competitor list")
  | BrokenEvent error

datatype feed = RequestFailed | InvalidJson | NoEventsKey | Events "raw_event list"

text \<open>The body of the loop over \<open>data['events']\<close>: one event, one row.\<close>

fun event_game :: "raw_event \<Rightarrow> error + game" where
  "event_game (BrokenEvent e) = Inl e"
| "event_game (RawEvent short_status state competitors) =
     (case competitors of
        [] \<Rightarrow> Inl IndexError
      | c0 # rest \<Rightarrow>
          (case py_int (comp_score c0) of
             None \<Rightarrow> Inl ValueError
           | Some score_0 \<Rightarrow>
               (case rest of
                  [] \<Rightarrow> Inl IndexError
                | c1 # _ \<Rightarrow>
                    (case py_int (comp_score c1) of
                       None \<Rightarrow> Inl ValueError
                     | Some score_1 \<Rightarrow>
                         Inr \<lparr> team_a = display_name c0,
                               team_b = display_name c1,
                               winner =
                                 (if state = ''post'' then
                                    (if score_0 > score_1 then display_name c0
                                     else if score_1 > score_0 then display_name c1
                                     else ''Tie'')
                                  else ''TBD''),
                               status = short_status,
                               score = py_str_int score_0 @ ''-'' @ py_str_int score_1,
                               locked = (state \<in> set [''in'', ''post'']) \<rparr>))))"

text \<open>The loop: the first event that raises ends it, whatever was appended before.\<close>

fun collect_games :: "raw_event list \<Rightarrow> error + game list" where
  "collect_games [] = Inr []"
| "collect_games (ev # evs) =
     (case event_game ev of
        Inl e \<Rightarrow> Inl e
      | Inr g \<Rightarrow>
          (case collect_games evs of
             Inl e \<Rightarrow> Inl e
           | Inr gs \<Rightarrow> Inr (g # gs)))"

text \<open>The body of the \<open>try\<close> block, up to the list \<open>games\<close>.\<close>

fun fetch_games :: "feed \<Rightarrow> error + game list" where
  "fetch_games RequestFailed = Inl RequestError"
| "fetch_games InvalidJson = Inl JSONDecodeError"
| "fetch_games NoEventsKey = Inr []"
| "fetch_games (Events evs) = collect_games evs"

definition nfl_teams :: "string list" where
  "nfl_teams =
     [''Arizona Cardinals'', ''Atlanta Falcons'', ''Baltimore Ravens'', ''Buffalo Bills'',
      ''Carolina Panthers'', ''Chicago Bears'', ''Cincinnati Bengals'', ''Cleveland Browns'',
      ''Dallas Cowboys'', ''Denver Broncos'', ''Detroit Lions'', ''Green Bay Packers'',
      ''Houston Texans'', ''Indianapolis Colts'', ''Jacksonville Jaguars'',
      ''Kansas City Chiefs'', ''Las Vegas Raiders'', ''Los Angeles Chargers'',
      ''Los Angeles Rams'', ''Miami Dolphins'', ''Minnesota Vikings'',
      ''New England Patriots'', ''New Orleans Saints'', ''New York Giants'',
      ''New York Jets'', ''Philadelphia Eagles'', ''Pittsburgh Steelers'',
      ''San Francisco 49ers'', ''Seattle Seahawks'', ''Tampa Bay Buccaneers'',
      ''Tennessee Titans'', ''Washington Commanders'']"

definition ncaa_teams :: "string list" where
  "ncaa_teams = [''Duke'', ''UNC'', ''Kansas'', ''Kentucky'', ''UConn'', ''Gonzaga'']"

definition dummy_game :: "string \<Rightarrow> game" where
  "dummy_game t =
     \<lparr> team_a = t, team_b = ''Bye'', winner = ''TBD'', status = ''Scheduled'',
       score = ''0-0'', locked = False \<rparr>"

definition dummy_games :: "string \<Rightarrow> game list" where
  "dummy_games pool_type =
     map dummy_game (if pool_type = ''NFL Survivor'' then nfl_teams else ncaa_teams)"

text \<open>
  The request URL: the week is added for the NFL pool when a week number is given
  (\<open>None\<close> and the empty string are false in Python).
\<close>

definition target_url :: "string \<Rightarrow> string \<Rightarrow> string option \<Rightarrow> string" where
  "target_url base_url pool_type week_num =
     (case week_num of
        None \<Rightarrow> base_url
      | Some wk \<Rightarrow>
          if pool_type = ''NFL Survivor'' \<and> wk \<noteq> []
          then base_url @ ''?week='' @ wk @ ''&seasontype=2''
          else base_url)"

text \<open>
  \<open>get_sports_data\<close>. The network is a function from the URL to what the request
  gives. Every exception of the \<open>try\<close> block is caught (and printed); an empty list of
  games falls through with it to the dummy rows.
\<close>

definition get_sports_data ::
  "(string \<Rightarrow> feed) \<Rightarrow> string \<Rightarrow> string \<Rightarrow> string option \<Rightarrow> game list" where
  "get_sports_data net base_url pool_type week_num =
     (case fetch_games (net (target_url base_url pool_type week_num)) of
        Inl e \<Rightarrow> dummy_games pool_type
      | Inr [] \<Rightarrow> dummy_games pool_type
      | Inr (g # gs) \<Rightarrow> g # gs)"

section \<open>The sheet of players\<close>

text \<open>
  A row of the players' frame is a dictionary from column name to cell, kept as an
  association list in column order; the frame is the list of its rows and has the columns
  of its first row (\<open>get_all_records\<close> gives every row the keys of the header).
\<close>

type_synonym row = "(string \<times> string) list"

definition df_columns :: "row list \<Rightarrow> string list" where
  "df_columns df = (case df of [] \<Rightarrow> [] | r # _ \<Rightarrow> map fst r)"

text \<open>\<open>row.get(col, default)\<close> and \<open>row[col]\<close>.\<close>

definition row_get :: "row \<Rightarrow> string \<Rightarrow> string \<Rightarrow> string" where
  "row_get r col dflt = (case map_of r col of None \<Rightarrow> dflt | Some v \<Rightarrow> v)"

definition row_item :: "row \<Rightarrow> string \<Rightarrow> error + string" where
  "row_item r col = (case map_of r col of None \<Rightarrow> Inl KeyError | Some v \<Rightarrow> Inr v)"

text \<open>The first error of a list of results, or all the values.\<close>

fun all_ok :: "(error + 'a) list \<Rightarrow> error + 'a list" where
  "all_ok [] = Inr []"
| "all_ok (Inl e # rs) = Inl e"
| "all_ok (Inr x # rs) = (case all_ok rs of Inl e \<Rightarrow> Inl e | Inr xs \<Rightarrow> Inr (x # xs))"

text \<open>The columns a pick can go to: those with \<open>Week\<close> or \<open>Round\<close> in the name.\<close>

definition pick_cols :: "row list \<Rightarrow> string list" where
  "pick_cols df =
     (let cs = filter (\<lambda>c. py_in ''Week'' c \<or> py_in ''Round'' c) (df_columns df)
      in if cs = [] then [''Week 1''] else cs)"

section \<open>Teams a player may still pick\<close>

text \<open>
  The non-empty picks of the player's row in the other pick columns. The condition
  \<open>c != selected_week\<close> is tested before the row is read.
\<close>

definition past_picks :: "row \<Rightarrow> string list \<Rightarrow> string \<Rightarrow> error + string list" where
  "past_picks user_row cols selected_week =
     (case all_ok (map (row_item user_row) (filter (\<lambda>c. c \<noteq> selected_week) cols)) of
        Inl e \<Rightarrow> Inl e
      | Inr vs \<Rightarrow> Inr (filter (\<lambda>v. v \<noteq> []) vs))"

text \<open>The loop over \<open>teams_playing\<close> that fills \<open>available_teams\<close>.\<close>

fun available_teams :: "string list \<Rightarrow> game list \<Rightarrow> string list" where
  "available_teams past [] = []"
| "available_teams past (g # gs) =
     (if \<not> locked g \<and> team_a g \<notin> set past then [team_a g] else [])
     @ (if \<not> locked g \<and> team_b g \<notin> set past \<and> team_b g \<noteq> ''Bye'' then [team_b g] else [])
     @ available_teams past gs"

text \<open>What the pick form offers after its empty entry: \<open>sorted(list(set(available_teams)))\<close>.\<close>

definition team_options :: "string list \<Rightarrow> game list \<Rightarrow> string list" where
  "team_options past games = sort (remdups (available_teams past games))"

section \<open>The status of a pick\<close>

text \<open>
  \<open>Series.str.contains(pick, case=False)\<close> reads the pick as a regular expression and
  searches each value for it, ignoring case by the rules of \<open>re.IGNORECASE\<close>;
  \<open>str.lower\<close> and \<open>str.strip\<close> go by the Unicode tables, and the two ways of
  ignoring case differ outside ASCII. On ASCII text they are as above, and a pick without
  any character that is special in a regular expression is searched as the lowered pick
  in the lowered value; the empty pick is found in every value. What Python does with any
  other text is not part of the script and is a parameter: \<open>re_search\<close> for the search
  (a match, no match, or \<open>re.error\<close>), \<open>lower_text\<close> and \<open>strip_text\<close> for the two
  methods.
\<close>

record pylib =
  re_search :: "string \<Rightarrow> string \<Rightarrow> error + bool"
  lower_text :: "string \<Rightarrow> string"
  strip_text :: "string \<Rightarrow> string"

definition str_lower :: "pylib \<Rightarrow> string \<Rightarrow> string" where
  "str_lower lib s = (if is_ascii s then py_lower s else lower_text lib s)"

definition str_strip :: "pylib \<Rightarrow> string \<Rightarrow> string" where
  "str_strip lib s = (if is_ascii s then py_strip s else strip_text lib s)"

definition re_special :: "char \<Rightarrow> bool" where
  "re_special c = (c \<in> set ''.^$*+?{}[]|()'' \<or> c = CHR 0x5C)"

definition str_contains :: "pylib \<Rightarrow> string \<Rightarrow> string \<Rightarrow> error + bool" where
  "str_contains lib pat s =
     (if pat = [] then Inr True
      else if is_ascii (pat @ s) \<and> \<not> list_ex re_special pat
      then Inr (py_in (py_lower pat) (py_lower s))
      else re_search lib pat s)"

text \<open>
  The rows of \<open>df_scores\<close> that the mask \<open>contains(Team A) | contains(Team B)\<close>
  keeps. Both columns are searched in full before any row is taken.
\<close>

definition select_match :: "pylib \<Rightarrow> string \<Rightarrow> game list \<Rightarrow> error + game list" where
  "select_match lib pick df_scores =
     (case all_ok (map (\<lambda>g. str_contains lib pick (team_a g)) df_scores) of
        Inl e \<Rightarrow> Inl e
      | Inr mask_a \<Rightarrow>
          (case all_ok (map (\<lambda>g. str_contains lib pick (team_b g)) df_scores) of
             Inl e \<Rightarrow> Inl e
           | Inr mask_b \<Rightarrow>
               Inr (map fst (filter (\<lambda>(g, m). m)
                      (zip df_scores (map (\<lambda>(a, b). a \<or> b) (zip mask_a mask_b)))))))"

text \<open>The status appended for one pick (already stripped).\<close>

definition pick_status :: "pylib \<Rightarrow> game list \<Rightarrow> string \<Rightarrow> error + string" where
  "pick_status lib df_scores pick =
     (case select_match lib pick df_scores of
        Inl e \<Rightarrow> Inl e
      | Inr [] \<Rightarrow> Inr ''Unknown''
      | Inr (game # _) \<Rightarrow>
          Inr (if status game = ''Final'' then
                 (if py_in (str_lower lib pick) (str_lower lib (winner game)) then ''SAFE''
                  else if winner game = ''Tie'' then ''TIE''
                  else ''ELIMINATED'')
               else ''Pending''))"

text \<open>The loop over the players' rows: the column \<open>Calculated_Status\<close>.\<close>

definition calculated_status ::
  "pylib \<Rightarrow> game list \<Rightarrow> row list \<Rightarrow> string \<Rightarrow> error + string list" where
  "calculated_status lib df_scores df selected_week =
     all_ok (map (\<lambda>r. pick_status lib df_scores (str_strip lib (row_get r selected_week [])))
               df)"

section \<open>Password hashes\<close>

text \<open>
  \<open>hashlib.sha256(data).hexdigest()\<close>: SHA-256 as FIPS 180-4 defines it, on the bytes
  of the password, printed as 64 lower-case hexadecimal digits. The test vector of the
  standard for the message \<open>abc\<close> is checked below.
\<close>

text \<open>The round constants, eight to a row as the standard prints them.\<close>

definition sha_k :: "nat list" where
  "sha_k = concat
     [[0x428a2f98, 0x71374491, 0xb5c0fbcf, 0xe9b5dba5, 0x3956c25b, 0x59f111f1, 0x923f82a4, 0xab1c5ed5],
      [0xd807aa98, 0x12835b01, 0x243185be, 0x550c7dc3, 0x72be5d74, 0x80deb1fe, 0x9bdc06a7, 0xc19bf174],
      [0xe49b69c1, 0xefbe4786, 0x0fc19dc6, 0x240ca1cc, 0x2de92c6f, 0x4a7484aa, 0x5cb0a9dc, 0x76f988da],
      [0x983e5152, 0xa831c66d, 0xb00327c8, 0xbf597fc7, 0xc6e00bf3, 0xd5a79147, 0x06ca6351, 0x14292967],
      [0x27b70a85, 0x2e1b2138, 0x4d2c6dfc, 0x53380d13, 0x650a7354, 0x766a0abb, 0x81c2c92e, 0x92722c85],
      [0xa2bfe8a1, 0xa81a664b, 0xc24b8b70, 0xc76c51a3, 0xd192e819, 0xd6990624, 0xf40e3585, 0x106aa070],
      [0x19a4c116, 0x1e376c08, 0x2748774c, 0x34b0bcb5, 0x391c0cb3, 0x4ed8aa4a, 0x5b9cca4f, 0x682e6ff3],
      [0x748f82ee, 0x78a5636f, 0x84c87814, 0x8cc70208, 0x90befffa, 0xa4506ceb, 0xbef9a3f7, 0xc67178f2]]"

text \<open>A 32-bit word is a natural number below \<open>2 ^ 32\<close>; addition wraps around.\<close>

definition add32 :: "nat \<Rightarrow> nat \<Rightarrow> nat" where
  "add32 x y = (x + y) mod 4294967296"

definition not32 :: "nat \<Rightarrow> nat" where
  "not32 x = 4294967295 - x"

definition rotr :: "nat \<Rightarrow> nat \<Rightarrow> nat" where
  "rotr n x = x div 2 ^ n + (x mod 2 ^ n) * 2 ^ (32 - n)"

definition ch :: "nat \<Rightarrow> nat \<Rightarrow> nat \<Rightarrow> nat" where
  "ch x y z = (x AND y) XOR (not32 x AND z)"

definition maj :: "nat \<Rightarrow> nat \<Rightarrow> nat \<Rightarrow> nat" where
  "maj x y z = (x AND y) XOR (x AND z) XOR (y AND z)"

definition big_sigma0 :: "nat \<Rightarrow> nat" where
  "big_sigma0 x = rotr 2 x XOR rotr 13 x XOR rotr 22 x"

definition big_sigma1 :: "nat \<Rightarrow> nat" where
  "big_sigma1 x = rotr 6 x XOR rotr 11 x XOR rotr 25 x"

definition small_sigma0 :: "nat \<Rightarrow> nat" where
  "small_sigma0 x = rotr 7 x XOR rotr 18 x XOR x div 2 ^ 3"

definition small_sigma1 :: "nat \<Rightarrow> nat" where
  "small_sigma1 x = rotr 17 x XOR rotr 19 x XOR x div 2 ^ 10"

text \<open>Padding: the bit 1, zeros up to 56 modulo 64 bytes, the bit length on 8 bytes.\<close>

definition be_bytes :: "nat \<Rightarrow> nat \<Rightarrow> nat list" where
  "be_bytes k n = map (\<lambda>i. (n div 256 ^ (k - 1 - i)) mod 256) [0..<k]"

definition sha_pad :: "nat list \<Rightarrow> nat list" where
  "sha_pad bs =
     bs @ [128] @ replicate ((119 - length bs mod 64) mod 64) 0 @ be_bytes 8 (8 * length bs)"

fun be_words :: "nat list \<Rightarrow> nat list" where
  "be_words (b0 # b1 # b2 # b3 # bs) =
     (((b0 * 256 + b1) * 256 + b2) * 256 + b3) # be_words bs"
| "be_words _ = []"

text \<open>The message schedule: 48 words after the 16 of the block.\<close>

fun extend_schedule :: "nat \<Rightarrow> nat list \<Rightarrow> nat list" where
  "extend_schedule 0 w = w"
| "extend_schedule (Suc n) w =
     (let l = length w
      in extend_schedule n
           (w @ [add32 (add32 (add32 (small_sigma1 (w ! (l - 2))) (w ! (l - 7)))
                          (small_sigma0 (w ! (l - 15))))
                   (w ! (l - 16))]))"

type_synonym sha_state = "nat \<times> nat \<times> nat \<times> nat \<times> nat \<times> nat \<times> nat \<times> nat"

definition sha_h0 :: sha_state where
  "sha_h0 =
     (0x6a09e667, 0xbb67ae85, 0x3c6ef372, 0xa54ff53a,
      0x510e527f, 0x9b05688c, 0x1f83d9ab, 0x5be0cd19)"

fun sha_round :: "sha_state \<Rightarrow> nat \<times> nat \<Rightarrow> sha_state" where
  "sha_round (a, b, c, d, e, f, g, h) (k, w) =
     (let t1 = add32 (add32 (add32 (add32 h (big_sigma1 e)) (ch e f g)) k) w;
          t2 = add32 (big_sigma0 a) (maj a b c)
      in (add32 t1 t2, a, b, c, add32 d t1, e, f, g))"

fun sha_block :: "sha_state \<Rightarrow> nat list \<Rightarrow> sha_state" where
  "sha_block (a, b, c, d, e, f, g, h) m =
     (case foldl sha_round (a, b, c, d, e, f, g, h) (zip sha_k (extend_schedule 48 m)) of
        (a', b', c', d', e', f', g', h') \<Rightarrow>
          (add32 a a', add32 b b', add32 c c', add32 d d',
           add32 e e', add32 f f', add32 g g', add32 h h'))"

fun chunks16 :: "nat \<Rightarrow> nat list \<Rightarrow> nat list list" where
  "chunks16 0 ws = []"
| "chunks16 (Suc n) ws = take 16 ws # chunks16 n (drop 16 ws)"

definition sha256_words :: "nat list \<Rightarrow> nat list" where
  "sha256_words bs =
     (let ws = be_words (sha_pad bs)
      in case foldl sha_block sha_h0 (chunks16 (length ws div 16) ws) of
           (a, b, c, d, e, f, g, h) \<Rightarrow> [a, b, c, d, e, f, g, h])"

definition hex_digit :: "nat \<Rightarrow> char" where
  "hex_digit n = ''0123456789abcdef'' ! n"

definition hex_word :: "nat \<Rightarrow> string" where
  "hex_word w = map (\<lambda>i. hex_digit ((w div 16 ^ (7 - i)) mod 16)) [0..<8]"

definition sha256_hexdigest :: "string \<Rightarrow> string" where
  "sha256_hexdigest s = concat (map hex_word (sha256_words (map of_char s)))"

definition make_hashes :: "string \<Rightarrow> string" where
  "make_hashes password = sha256_hexdigest password"

definition check_hashes :: "string \<Rightarrow> string \<Rightarrow> bool" where
  "check_hashes password hashed_text =
     (if make_hashes password = hashed_text then True else False)"

section \<open>Registration\<close>

text \<open>
  The spreadsheet maps the title of a worksheet to its rows of cells, the header row
  first. A call of the sheets API can fail for reasons outside the script; \<open>api_fail\<close>
  says which calls do.
\<close>

type_synonym spreadsheet = "string \<rightharpoonup> string list list"

datatype api_call = OpenWorksheet | GetAllRecords | AppendRow

definition worksheet ::
  "(api_call \<Rightarrow> bool) \<Rightarrow> spreadsheet \<Rightarrow> string \<Rightarrow> error + string list list" where
  "worksheet api_fail sh title =
     (if api_fail OpenWorksheet then Inl APIError
      else case sh title of None \<Rightarrow> Inl WorksheetNotFound | Some cells \<Rightarrow> Inr cells)"

text \<open>
  \<open>get_all_records\<close>: every row under the header as a dictionary keyed by the header,
  short rows filled with empty cells; a header with a repeated name is refused.
\<close>

definition get_all_records ::
  "(api_call \<Rightarrow> bool) \<Rightarrow> string list list \<Rightarrow> error + row list" where
  "get_all_records api_fail cells =
     (if api_fail GetAllRecords then Inl APIError
      else case cells of
             [] \<Rightarrow> Inr []
           | header # body \<Rightarrow>
               if distinct header
               then Inr (map (\<lambda>r. zip header (r @ replicate (length header - length r) [])) body)
               else Inl GSpreadException)"

definition append_row ::
  "(api_call \<Rightarrow> bool) \<Rightarrow> spreadsheet \<Rightarrow> string \<Rightarrow> string list \<Rightarrow> error + spreadsheet" where
  "append_row api_fail sh title vals =
     (if api_fail AppendRow then Inl APIError
      else case sh title of
             None \<Rightarrow> Inl WorksheetNotFound
           | Some cells \<Rightarrow> Inr (sh(title \<mapsto> cells @ [vals])))"

text \<open>
  \<open>register_user\<close> returns its pair and the spreadsheet it leaves. The message of a
  caught exception \<open>e\<close>, \<open>str(e)\<close>, is \<open>Inl e\<close>.
\<close>

definition register_user ::
  "(api_call \<Rightarrow> bool) \<Rightarrow> spreadsheet \<Rightarrow> string \<Rightarrow> string \<Rightarrow> string \<Rightarrow> string
     \<Rightarrow> (bool \<times> (error + string)) \<times> spreadsheet" where
  "register_user api_fail sh sheet_name name email password =
     (case worksheet api_fail sh sheet_name of
        Inl e \<Rightarrow> ((False, Inl e), sh)
      | Inr ws \<Rightarrow>
          (case get_all_records api_fail ws of
             Inl e \<Rightarrow> ((False, Inl e), sh)
           | Inr existing_data \<Rightarrow>
               if existing_data \<noteq> [] \<and> ''Email'' \<in> set (df_columns existing_data)
                  \<and> py_strip (py_lower email)
                      \<in> set (map (\<lambda>r. py_strip (py_lower (row_get r ''Email'' [])))
                                existing_data)
               then ((False, Inr ''Email already registered!''), sh)
               else
                 (case append_row api_fail sh sheet_name
                         [name, email, make_hashes password, ''Alive''] of
                    Inl e \<Rightarrow> ((False, Inl e), sh)
                  | Inr sh' \<Rightarrow> ((True, Inr ''Success''), sh'))))"

text \<open>The header the admin page gives a new pool sheet.\<close>

definition pool_headers :: "string list" where
  "pool_headers =
     [''Name'', ''Email'', ''Security_Hash'', ''Status'']
     @ map (\<lambda>i. ''Week '' @ show_nat i) [1..<19]"

section \<open>The picks board of the player portal\<close>

text \<open>
  \<open>get_reveal_status\<close>, from what reading cell B2 of the sheet Config gives: an
  exception, an empty cell (\<open>None\<close>) or its text.
\<close>

definition get_reveal_status :: "error + string option \<Rightarrow> bool" where
  "get_reveal_status cell =
     (case cell of
        Inl e \<Rightarrow> False
      | Inr None \<Rightarrow> py_lower ''None'' = ''true''
      | Inr (Some val) \<Rightarrow> py_lower val = ''true'')"

text \<open>What the page shows, element by element.\<close>

datatype element =
    Subheader string
  | Warning string
  | Info string
  | Write string
  | Dataframe "row list"
  | Styled "row list" "string list"

text \<open>
  \<open>value_counts\<close>: each distinct value with the number of its occurrences, the most
  frequent first. Values of equal count are listed here in the order of their first
  occurrence; pandas leaves their order open, and nothing below depends on it.
\<close>

definition value_counts :: "string list \<Rightarrow> (string \<times> nat) list" where
  "value_counts xs =
     sort_key (\<lambda>(v, n). - int n) (map (\<lambda>v. (v, count_list xs v)) (rev (remdups (rev xs))))"

definition breakdown :: "row list \<Rightarrow> string \<Rightarrow> element list \<times> error option" where
  "breakdown df selected_week =
     (let head = Subheader ([CHR 0xF0, CHR 0x9F, CHR 0x93, CHR 0x8A] @ '' Breakdown: ''
                            @ selected_week)
      in if ''Status'' \<in> set (df_columns df) then
           (let alive_df = filter (\<lambda>r. row_get r ''Status'' [] = ''Alive'') df
            in if alive_df \<noteq> [] then
                 (case all_ok (map (\<lambda>r. row_item r selected_week) alive_df) of
                    Inl e \<Rightarrow> ([head], Some e)
                  | Inr picks \<Rightarrow>
                      ([head,
                        Dataframe
                          (map (\<lambda>(team, n). [(''Team'', team), (''Count'', show_nat n)])
                             (filter (\<lambda>(team, n). team \<noteq> []) (value_counts picks)))],
                       None))
               else ([head, Write ''No Alive players.''], None))
         else ([head], None))"

definition color :: "string \<Rightarrow> string" where
  "color val =
     (if py_in ''SAFE'' val then ''color: green''
      else if py_in ''ELIMINATED'' val then ''color: red''
      else [])"

definition set_column :: "string \<Rightarrow> string \<Rightarrow> row \<Rightarrow> row" where
  "set_column col v r =
     (if col \<in> set (map fst r) then map (\<lambda>(c, x). if c = col then (c, v) else (c, x)) r
      else r @ [(col, v)])"

definition live_standings ::
  "pylib \<Rightarrow> row list \<Rightarrow> game list \<Rightarrow> string \<Rightarrow> element list \<times> error option" where
  "live_standings lib df df_scores selected_week =
     (let head = Subheader ([CHR 0xF0, CHR 0x9F, CHR 0x8F, CHR 0x86] @ '' Live Standings'');
          dropped = map (filter (\<lambda>(c, v). c \<notin> set [''Security_Hash'', ''Email'', ''Login_Code'']))
                      df
      in case (if df_scores \<noteq> [] then
                 (case calculated_status lib df_scores df selected_week of
                    Inl e \<Rightarrow> Inl e
                  | Inr statuses \<Rightarrow>
                      Inr (map (\<lambda>(r, s). set_column ''Calculated_Status'' s r)
                             (zip dropped statuses)))
               else Inr dropped) of
           Inl e \<Rightarrow> ([head], Some e)
         | Inr display_df \<Rightarrow>
             if ''Calculated_Status'' \<in> set (df_columns display_df)
             then ([head,
                    Styled display_df
                      (map (\<lambda>r. color (row_get r ''Calculated_Status'' [])) display_df)],
                   None)
             else ([head, Dataframe display_df], None))"

definition picks_hidden :: "element list" where
  "picks_hidden =
     [Warning ([CHR 0xF0, CHR 0x9F, CHR 0x94, CHR 0x92] @ '' **Picks Hidden**''),
      Info ''The Admin has hidden the picks board. It will open after the games begin!'']"

text \<open>
  The part of the portal under \<open>picks_revealed\<close>: the two columns, or the notice.
  The result is what the page has shown, and the exception that ended the run if one did.
\<close>

definition picks_board ::
  "pylib \<Rightarrow> bool \<Rightarrow> row list \<Rightarrow> game list \<Rightarrow> string
     \<Rightarrow> element list \<times> error option" where
  "picks_board lib picks_revealed df df_scores selected_week =
     (if picks_revealed then
        (case breakdown df selected_week of
           (col1, Some e) \<Rightarrow> (col1, Some e)
         | (col1, None) \<Rightarrow>
             (case live_standings lib df df_scores selected_week of
                (col2, err) \<Rightarrow> (col1 @ col2, err)))
      else (picks_hidden, None))"

section \<open>Notions the properties are stated with\<close>

text \<open>The number of rows of the slate a team plays in.\<close>

definition appearances :: "string \<Rightarrow> game list \<Rightarrow> nat" where
  "appearances t games = length (filter (\<lambda>g. team_a g = t \<or> team_b g = t) games)"

text \<open>The events of a feed, and whether one of the first two competitors bears a name.\<close>

fun feed_events :: "feed \<Rightarrow> raw_event list" where
  "feed_events (Events evs) = evs"
| "feed_events _ = []"

definition competitor_named :: "string \<Rightarrow> raw_event \<Rightarrow> bool" where
  "competitor_named n ev =
     (case ev of
        RawEvent d st cs \<Rightarrow> n \<in> set (map display_name (take 2 cs))
      | BrokenEvent e \<Rightarrow> False)"

text \<open>
  The classifier in the words of the specification, with the status column in the place
  of the completion state, for ASCII text: \<open>contains_ci s sub\<close> says that \<open>s\<close>
  contains \<open>sub\<close> as a substring when the case of the letters A to Z is ignored, and
  \<open>ascii_slate\<close> that the team names and winners of a list of games are ASCII.
\<close>

definition ascii_slate :: "game list \<Rightarrow> bool" where
  "ascii_slate records =
     list_all (\<lambda>g. is_ascii (team_a g) \<and> is_ascii (team_b g) \<and> is_ascii (winner g)) records"

definition contains_ci :: "string \<Rightarrow> string \<Rightarrow> bool" where
  "contains_ci s sub = py_in (py_lower sub) (py_lower s)"

definition classify_by_status :: "game list \<Rightarrow> string \<Rightarrow> string" where
  "classify_by_status records pick =
     (case find (\<lambda>g. contains_ci (team_a g) pick \<or> contains_ci (team_b g) pick) records of
        None \<Rightarrow> ''Unknown''
      | Some g \<Rightarrow>
          if status g \<noteq> ''Final'' then ''Pending''
          else if contains_ci (winner g) pick then ''SAFE''
          else if winner g = ''Tie'' then ''TIE''
          else ''ELIMINATED'')"

section \<open>Example data\<close>

definition bad_score_feed :: feed where
  "bad_score_feed =
     Events [RawEvent ''Final'' ''post''
               [\<lparr>display_name = ''Eagles'', comp_score = ''24''\<rparr>,
                \<lparr>display_name = ''Giants'', comp_score = ''n/a''\<rparr>]]"

definition small_sheet :: spreadsheet where
  "small_sheet =
     [''NFL'' \<mapsto> [[''Name'', ''Email'', ''Security_Hash'', ''Status'', ''Week 1''],
                   [''ann'', ''Ann@Example.com '', ''00'', ''Alive'', ''Chiefs'']]]"

definition api_ok :: "api_call \<Rightarrow> bool" where
  "api_ok c = False"

definition sample_lib :: pylib where
  "sample_lib =
     \<lparr> re_search = (\<lambda>pat s. Inl ReError), lower_text = (\<lambda>s. s), strip_text = (\<lambda>s. s) \<rparr>"

definition week1_players :: "row list" where
  "week1_players =
     [[(''Name'', ''ann''), (''Email'', ''a@example.com''), (''Security_Hash'', ''00''),
       (''Status'', ''Alive''), (''Week 1'', ''Chiefs'')],
      [(''Name'', ''bob''), (''Email'', ''b@example.com''), (''Security_Hash'', ''01''),
       (''Status'', ''Alive''), (''Week 1'', ''Bills'')]]"

definition eagles_giants_final :: game where
  "eagles_giants_final =
     \<lparr> team_a = ''Eagles'', team_b = ''Giants'', winner = ''Eagles'', status = ''Final'',
       score = ''24-17'', locked = True \<rparr>"

definition jets_bills_final :: game where
  "jets_bills_final =
     \<lparr> team_a = ''Jets'', team_b = ''Bills'', winner = ''Tie'', status = ''Final'',
       score = ''10-10'', locked = True \<rparr>"

definition bye_first_feed :: feed where
  "bye_first_feed =
     Events [RawEvent ''Scheduled'' ''pre''
               [\<lparr>display_name = ''Bye'', comp_score = ''0''\<rparr>,
                \<lparr>display_name = ''Duke'', comp_score = ''0''\<rparr>]]"

definition duke_unc_live :: game where
  "duke_unc_live =
     \<lparr> team_a = ''Duke'', team_b = ''UNC'', winner = ''TBD'', status = ''In Progress'',
       score = ''10-8'', locked = True \<rparr>"

definition duke_kansas_next :: game where
  "duke_kansas_next =
     \<lparr> team_a = ''Duke'', team_b = ''Kansas'', winner = ''TBD'', status = ''Scheduled'',
       score = ''0-0'', locked = False \<rparr>"

definition eagles_cowboys_slate :: "game list" where
  "eagles_cowboys_slate =
     [\<lparr> team_a = ''Eagles'', team_b = ''Giants'', winner = ''TBD'', status = ''In Progress'',
        score = ''7-3'', locked = True \<rparr>,
      \<lparr> team_a = ''Cowboys'', team_b = ''Chiefs'', winner = ''TBD'', status = ''Scheduled'',
        score = ''0-0'', locked = False \<rparr>]"

definition tbd_wins_event :: raw_event where
  "tbd_wins_event =
     RawEvent ''Final'' ''post''
       [\<lparr>display_name = ''TBD'', comp_score = ''3''\<rparr>,
        \<lparr>display_name = ''Duke'', comp_score = ''1''\<rparr>]"

definition tie_wins_event :: raw_event where
  "tie_wins_event =
     RawEvent ''Final'' ''post''
       [\<lparr>display_name = ''Tie'', comp_score = ''3''\<rparr>,
        \<lparr>display_name = ''Bills'', comp_score = ''1''\<rparr>]"

definition eagles_giants_event :: raw_event where
  "eagles_giants_event =
     RawEvent ''Final'' ''post''
       [\<lparr>display_name = ''Eagles'', comp_score = ''24''\<rparr>,
        \<lparr>display_name = ''Giants'', comp_score = ''17''\<rparr>]"

definition jets_bills_event :: raw_event where
  "jets_bills_event =
     RawEvent ''Final'' ''post''
       [\<lparr>display_name = ''Jets'', comp_score = ''10''\<rparr>,
        \<lparr>display_name = ''Bills'', comp_score = ''10''\<rparr>]"



definition chiefs_bills_players :: "row list" where
  "chiefs_bills_players =
     [[(''Name'', ''ann''), (''Status'', ''Alive''), (''Week 1'', ''Chiefs'')],
      [(''Name'', ''bob''), (''Status'', ''Alive''), (''Week 1'', ''Bills'')],
      [(''Name'', ''cy''), (''Status'', ''Alive''), (''Week 1'', ''Chiefs'')],
      [(''Name'', ''di''), (''Status'', ''Alive''), (''Week 1'', [])],
      [(''Name'', ''ed''), (''Status'', ''Eliminated''), (''Week 1'', ''Bills'')]]"

definition abc_block :: "nat list" where
  "abc_block =
     [0x61626380, 0x00000000, 0x00000000, 0x00000000, 0x00000000, 0x00000000, 0x00000000, 0x00000000,
      0x00000000, 0x00000000, 0x00000000, 0x00000000, 0x00000000, 0x00000000, 0x00000000, 0x00000018]"

definition abc_schedule :: "nat list" where
  "abc_schedule =
     [0x61626380, 0x00000000, 0x00000000, 0x00000000, 0x00000000, 0x00000000, 0x00000000, 0x00000000,
      0x00000000, 0x00000000, 0x00000000, 0x00000000, 0x00000000, 0x00000000, 0x00000000, 0x00000018,
      0x61626380, 0x000f0000, 0x7da86405, 0x600003c6, 0x3e9d7b78, 0x0183fc00, 0x12dcbfdb, 0xe2e2c38e,
      0xc8215c1a, 0xb73679a2, 0xe5bc3909, 0x32663c5b, 0x9d209d67, 0xec8726cb, 0x702138a4, 0xd3b7973b,
      0x93f5997f, 0x3b68ba73, 0xaff4ffc1, 0xf10a5c62, 0x0a8b3996, 0x72af830a, 0x9409e33e, 0x24641522,
      0x9f47bf94, 0xf0a64f5a, 0x3e246a79, 0x27333ba3, 0x0c4763f2, 0x840abf27, 0x7a290d5d, 0x065c43da,
      0xfb3e89cb, 0xcc7617db, 0xb9e66c34, 0xa9993667, 0x84badedd, 0xc21462bc, 0x1487472c, 0xb20f7a99,
      0xef57b9cd, 0xebe6b238, 0x9fe3095e, 0x78bc8d4b, 0xa43fcf15, 0x668b2ff8, 0xeeaba2cc, 0x12b1edeb]"

section \<open>The fallback slate\<close>

lemma collect_games_error:
  "ev \<in> set evs \<Longrightarrow> event_game ev = Inl e \<Longrightarrow> \<exists>e'. collect_games evs = Inl e'"
proof (induction evs)
  case Nil
  then show ?case by simp
next
  case (Cons x xs)
  show ?case
  proof (cases "event_game x")
    case (Inl a)
    then show ?thesis by simp
  next
    case (Inr g)
    with Cons have "ev \<in> set xs" by auto
    with Cons obtain e' where "collect_games xs = Inl e'" by blast
    with Inr show ?thesis by simp
  qed
qed

lemma dummy_games_rows:
  "g \<in> set (dummy_games pool_type) \<Longrightarrow>
     winner g = ''TBD'' \<and> status g = ''Scheduled'' \<and> \<not> locked g \<and> team_b g = ''Bye''"
  by (auto simp: dummy_games_def dummy_game_def)

lemma dummy_games_not_empty: "dummy_games pool_type \<noteq> []"
  by (simp add: dummy_games_def nfl_teams_def ncaa_teams_def)

lemma get_sports_data_error:
  "fetch_games (net (target_url base_url pool_type week_num)) = Inl e \<Longrightarrow>
     get_sports_data net base_url pool_type week_num = dummy_games pool_type"
  by (simp add: get_sports_data_def)

lemma get_sports_data_no_games:
  "fetch_games (net (target_url base_url pool_type week_num)) = Inr [] \<Longrightarrow>
     get_sports_data net base_url pool_type week_num = dummy_games pool_type"
  by (simp add: get_sports_data_def)

lemma get_sports_data_total:
  "get_sports_data net base_url pool_type week_num = dummy_games pool_type
   \<or> fetch_games (net (target_url base_url pool_type week_num))
       = Inr (get_sports_data net base_url pool_type week_num)"
  by (simp add: get_sports_data_def split: sum.splits list.splits)

lemma get_sports_data_not_empty: "get_sports_data net base_url pool_type week_num \<noteq> []"
  by (simp add: get_sports_data_def dummy_games_not_empty split: sum.splits list.splits)

text \<open>
  Claim C7. \<open>get_sports_data\<close> never raises: it is a total function whose \<open>try\<close>
  block turns every exception into the dummy rows. When the request fails, the body is
  not JSON, the key \<open>events\<close> is missing, the list of events is empty or some event
  raises, the result is the dummy slate of the pool, which is not empty and in which
  every row has winner \<open>TBD\<close>, status \<open>Scheduled\<close> and is not locked.
\<close>

theorem get_sports_data_fallback:
  assumes "net (target_url base_url pool_type week_num) = r"
    and "r = RequestFailed \<or> r = InvalidJson \<or> r = NoEventsKey \<or> r = Events []
         \<or> (\<exists>evs ev e. r = Events evs \<and> ev \<in> set evs \<and> event_game ev = Inl e)"
  shows "get_sports_data net base_url pool_type week_num = dummy_games pool_type
         \<and> dummy_games pool_type \<noteq> []
         \<and> (\<forall>g \<in> set (dummy_games pool_type).
               winner g = ''TBD'' \<and> status g = ''Scheduled'' \<and> \<not> locked g)"
proof -
  have "(\<exists>e. fetch_games r = Inl e) \<or> fetch_games r = Inr []"
    using assms(2) collect_games_error by fastforce
  then have "get_sports_data net base_url pool_type week_num = dummy_games pool_type"
    using assms(1) get_sports_data_error get_sports_data_no_games by blast
  then show ?thesis
    using dummy_games_rows dummy_games_not_empty by blast
qed

theorem get_sports_data_fallback_witness:
  "get_sports_data (\<lambda>url. bad_score_feed) ''http://feed'' ''NFL Survivor'' (Some ''3'')
     = dummy_games ''NFL Survivor''
   \<and> dummy_games ''NFL Survivor'' \<noteq> []"
proof -
  have ev: "event_game (RawEvent ''Final'' ''post''
               [\<lparr>display_name = ''Eagles'', comp_score = ''24''\<rparr>,
                \<lparr>display_name = ''Giants'', comp_score = ''n/a''\<rparr>]) = Inl ValueError"
    by code_simp
  have "bad_score_feed = RequestFailed \<or> bad_score_feed = InvalidJson
        \<or> bad_score_feed = NoEventsKey \<or> bad_score_feed = Events []
        \<or> (\<exists>evs ev e. bad_score_feed = Events evs \<and> ev \<in> set evs \<and> event_game ev = Inl e)"
    unfolding bad_score_feed_def using ev by fastforce
  from get_sports_data_fallback [OF refl this] show ?thesis by blast
qed

section \<open>Password hashes\<close>

lemma length_hex_word: "length (hex_word w) = 8"
  by (simp add: hex_word_def)

lemma length_sha256_words: "length (sha256_words bs) = 8"
  by (simp add: sha256_words_def Let_def split: prod.splits)

lemma length_concat_hex: "length (concat (map hex_word ws)) = 8 * length ws"
  by (induction ws) (simp_all add: length_hex_word)

lemma length_make_hashes: "length (make_hashes password) = 64"
  by (simp add: make_hashes_def sha256_hexdigest_def length_concat_hex length_sha256_words)

text \<open>The digest of \<open>abc\<close>, step by step: padding, schedule, rounds, output.\<close>

lemma replicate_numeral_unfold:
  "replicate (numeral k) x = x # replicate (pred_numeral k) x"
  by (simp add: numeral_eq_Suc)

lemma abc_padded: "be_words (sha_pad (map of_char ''abc'')) = abc_block"
  by (simp add: sha_pad_def be_bytes_def replicate_numeral_unfold upt_conv_Cons abc_block_def)

lemma extend_schedule_numeral:
  "extend_schedule (numeral k) w =
     extend_schedule (pred_numeral k)
       (w @ [add32 (add32 (add32 (small_sigma1 (w ! (length w - 2))) (w ! (length w - 7)))
                      (small_sigma0 (w ! (length w - 15))))
               (w ! (length w - 16))])"
  by (simp add: numeral_eq_Suc Let_def)

lemma extend_schedule_one:
  "extend_schedule (Suc 0) w =
     w @ [add32 (add32 (add32 (small_sigma1 (w ! (length w - 2))) (w ! (length w - 7)))
                    (small_sigma0 (w ! (length w - 15))))
             (w ! (length w - 16))]"
  by (simp add: Let_def)

lemma abc_scheduled: "extend_schedule 48 abc_block = abc_schedule"
  by (simp add: abc_block_def abc_schedule_def extend_schedule_numeral extend_schedule_one
        small_sigma0_def small_sigma1_def rotr_def add32_def del: extend_schedule.simps)

lemma abc_rounds:
  "foldl sha_round
     (0x6a09e667, 0xbb67ae85, 0x3c6ef372, 0xa54ff53a, 0x510e527f, 0x9b05688c, 0x1f83d9ab, 0x5be0cd19)
     (zip sha_k abc_schedule)
   = (0x506e3058, 0xd39a2165, 0x04d24d6c, 0xb85e2ce9, 0x5ef50f24, 0xfb121210, 0x948d25b6, 0x961f4894)"
  by (simp add: sha_k_def abc_schedule_def Let_def big_sigma0_def big_sigma1_def ch_def
        maj_def rotr_def add32_def not32_def)

lemma abc_compressed:
  "sha_block sha_h0 abc_block
   = (0xba7816bf, 0x8f01cfea, 0x414140de, 0x5dae2223, 0xb00361a3, 0x96177a9c, 0xb410ff61, 0xf20015ad)"
  by (simp add: sha_h0_def abc_scheduled abc_rounds add32_def)

lemma abc_words: "sha256_words (map of_char ''abc'') = [0xba7816bf, 0x8f01cfea, 0x414140de, 0x5dae2223, 0xb00361a3, 0x96177a9c, 0xb410ff61, 0xf20015ad]"
proof -
  have c: "chunks16 (length abc_block div 16) abc_block = [abc_block]"
    by (simp add: abc_block_def)
  show ?thesis
    unfolding sha256_words_def abc_padded Let_def c
    by (simp add: abc_compressed del: sha_block.simps)
qed

lemma sha256_abc:
  "sha256_hexdigest ''abc'' = ''ba7816bf8f01cfea414140de5dae2223b00361a396177a9cb410ff61f20015ad''"
  unfolding sha256_hexdigest_def abc_words
  by (simp add: hex_word_def hex_digit_def upt_conv_Cons)

lemma make_hashes_abc:
  "make_hashes ''abc'' = ''ba7816bf8f01cfea414140de5dae2223b00361a396177a9cb410ff61f20015ad''"
  by (simp only: make_hashes_def sha256_abc)

text \<open>
  Claim C9. \<open>make_hashes\<close> is a function of the password alone (no salt, no state), so
  two applications to one password give one digest; \<open>check_hashes\<close> accepts the
  digest of the password itself, and it returns true exactly when the hash of the
  password it is given equals the digest it is given.
\<close>

theorem check_hashes_correct:
  "make_hashes p = make_hashes p
   \<and> check_hashes p (make_hashes p) = True
   \<and> check_hashes p digest = (make_hashes p = digest)"
  by (simp add: check_hashes_def)

section \<open>Registration\<close>

lemma register_user_success:
  assumes "register_user api_fail sh sheet_name name email password = ((True, msg), sh')"
  shows "\<exists>cells. sh sheet_name = Some cells
           \<and> sh' = sh(sheet_name \<mapsto> cells @ [[name, email, make_hashes password, ''Alive'']])"
  using assms
  by (auto simp: register_user_def append_row_def
           split: sum.splits if_splits option.splits)

text \<open>
  Claim C10. When \<open>register_user\<close> reports success, the sheet of the pool has gained
  exactly one row, the four values name, email, hash of the password and \<open>Alive\<close>, at
  its end, and no other sheet has changed: the status cell of a new player is \<open>Alive\<close>,
  never \<open>Eliminated\<close>.
\<close>

theorem register_user_alive:
  assumes "register_user api_fail sh sheet_name name email password = ((True, msg), sh')"
  shows "\<exists>cells. sh sheet_name = Some cells
           \<and> sh' sheet_name = Some (cells @ [[name, email, make_hashes password, ''Alive'']])
           \<and> (\<forall>t. t \<noteq> sheet_name \<longrightarrow> sh' t = sh t)
           \<and> last (the (sh' sheet_name)) ! 3 = ''Alive''
           \<and> last (the (sh' sheet_name)) ! 3 \<noteq> ''Eliminated''"
proof -
  from register_user_success [OF assms] obtain cells where
    c: "sh sheet_name = Some cells"
       "sh' = sh(sheet_name \<mapsto> cells @ [[name, email, make_hashes password, ''Alive'']])"
    by blast
  then show ?thesis by simp
qed

theorem register_user_alive_witness:
  "fst (fst (register_user api_ok small_sheet ''NFL'' ''bob'' ''bob@example.com'' ''pw'')) = True
   \<and> snd (register_user api_ok small_sheet ''NFL'' ''bob'' ''bob@example.com'' ''pw'') ''NFL''
       = Some [[''Name'', ''Email'', ''Security_Hash'', ''Status'', ''Week 1''],
               [''ann'', ''Ann@Example.com '', ''00'', ''Alive'', ''Chiefs''],
               [''bob'', ''bob@example.com'', make_hashes ''pw'', ''Alive'']]"
proof -
  have l1: "py_strip (py_lower ''bob@example.com'') = ''bob@example.com''" by code_simp
  have l2: "py_strip (py_lower ''Ann@Example.com '') = ''ann@example.com''" by code_simp
  have r: "register_user api_ok small_sheet ''NFL'' ''bob'' ''bob@example.com'' ''pw''
             = ((True, Inr ''Success''),
                small_sheet(''NFL'' \<mapsto> the (small_sheet ''NFL'')
                   @ [[''bob'', ''bob@example.com'', make_hashes ''pw'', ''Alive'']]))"
    by (simp add: register_user_def worksheet_def get_all_records_def append_row_def
          api_ok_def small_sheet_def df_columns_def row_get_def l1 l2)
  from register_user_alive [OF r] r show ?thesis
    by (auto simp: small_sheet_def)
qed

text \<open>
  On a sheet with the header the admin page creates, the fourth cell is the column
  \<open>Status\<close>: the record of the new player reads \<open>Alive\<close> there.
\<close>

lemma pool_headers_list:
  "pool_headers =
     [''Name'', ''Email'', ''Security_Hash'', ''Status'', ''Week 1'', ''Week 2'', ''Week 3'',
      ''Week 4'', ''Week 5'', ''Week 6'', ''Week 7'', ''Week 8'', ''Week 9'', ''Week 10'',
      ''Week 11'', ''Week 12'', ''Week 13'', ''Week 14'', ''Week 15'', ''Week 16'',
      ''Week 17'', ''Week 18'']"
  by code_simp

lemma registered_player_alive:
  assumes "register_user api_fail sh sheet_name name email password = ((True, msg), sh')"
    and "sh sheet_name = Some (pool_headers # body)"
  shows "\<exists>rows. get_all_records (\<lambda>c. False) (the (sh' sheet_name)) = Inr rows \<and> rows \<noteq> []
           \<and> row_get (last rows) ''Name'' [] = name
           \<and> row_get (last rows) ''Status'' [] = ''Alive''"
proof -
  have "sh' sheet_name
          = Some (pool_headers # body @ [[name, email, make_hashes password, ''Alive'']])"
    using assms
    by (auto simp: register_user_def append_row_def worksheet_def
             split: sum.splits if_splits option.splits)
  then show ?thesis
    by (simp add: get_all_records_def pool_headers_list row_get_def)
qed

section \<open>The hidden board\<close>

text \<open>
  Claim C8. While \<open>get_reveal_status\<close> is false the player portal shows the fixed notice
  \<open>picks_hidden\<close> in place of the board, whatever the players' sheet, the games and the
  week are: two portals with different data show the same.
\<close>

theorem picks_board_hidden:
  assumes "\<not> get_reveal_status cell"
  shows "picks_board lib (get_reveal_status cell) df1 scores1 week1 = (picks_hidden, None)
         \<and> picks_board lib (get_reveal_status cell) df1 scores1 week1
             = picks_board lib (get_reveal_status cell) df2 scores2 week2"
  using assms by (simp add: picks_board_def)

theorem picks_board_hidden_witness:
  "picks_board sample_lib (get_reveal_status (Inr (Some ''False''))) week1_players
       [eagles_giants_final] ''Week 1''
     = picks_board sample_lib (get_reveal_status (Inr (Some ''False''))) []
         [jets_bills_final] ''Week 2''
   \<and> picks_board sample_lib (get_reveal_status (Inr (Some ''False''))) week1_players
       [eagles_giants_final] ''Week 1'' = (picks_hidden, None)"
proof -
  have h: "\<not> get_reveal_status (Inr (Some ''False''))" by code_simp
  from picks_board_hidden [OF h] show ?thesis by blast
qed

text \<open>Once revealed, the board does depend on the players; so does the breakdown.\<close>

lemma revealed_board_shows_players:
  "picks_board sample_lib True week1_players [eagles_giants_final] ''Week 1''
   \<noteq> picks_board sample_lib True [] [eagles_giants_final] ''Week 1''"
  by code_simp

lemma scenario_breakdown:
  "breakdown chiefs_bills_players ''Week 1''
   = ([Subheader ([CHR 0xF0, CHR 0x9F, CHR 0x93, CHR 0x8A] @ '' Breakdown: Week 1''),
       Dataframe [[(''Team'', ''Chiefs''), (''Count'', ''2'')],
                  [(''Team'', ''Bills''), (''Count'', ''1'')]]],
      None)"
  by code_simp

section \<open>Winners of the normalized games\<close>

lemma event_game_Inr:
  assumes "event_game ev = Inr g"
  obtains d st c0 c1 cs s0 s1 where
    "ev = RawEvent d st (c0 # c1 # cs)"
    "py_int (comp_score c0) = Some s0" "py_int (comp_score c1) = Some s1"
    "g = \<lparr> team_a = display_name c0, team_b = display_name c1,
           winner = (if st = ''post'' then
                       (if s0 > s1 then display_name c0
                        else if s1 > s0 then display_name c1 else ''Tie'')
                     else ''TBD''),
           status = d, score = py_str_int s0 @ ''-'' @ py_str_int s1,
           locked = (st \<in> set [''in'', ''post'']) \<rparr>"
  using assms
  by (cases ev) (auto split: list.splits option.splits)

lemma collect_games_rows:
  "collect_games evs = Inr gs \<Longrightarrow> g \<in> set gs \<Longrightarrow> \<exists>ev \<in> set evs. event_game ev = Inr g"
proof (induction evs arbitrary: gs)
  case Nil
  then show ?case by simp
next
  case (Cons x xs)
  then show ?case
    by (auto split: sum.splits)
qed

lemma get_sports_data_rows:
  assumes "g \<in> set (get_sports_data net base_url pool_type week_num)"
  shows "g \<in> set (dummy_games pool_type)
         \<or> (\<exists>ev \<in> set (feed_events (net (target_url base_url pool_type week_num))).
               event_game ev = Inr g)"
proof (cases "fetch_games (net (target_url base_url pool_type week_num))")
  case (Inl e)
  with assms show ?thesis by (simp add: get_sports_data_def)
next
  case (Inr gs)
  show ?thesis
  proof (cases gs)
    case Nil
    with Inr assms show ?thesis by (simp add: get_sports_data_def)
  next
    case (Cons a as)
    with Inr assms have g: "g \<in> set gs" by (simp add: get_sports_data_def)
    from Inr Cons obtain evs where
      evs: "net (target_url base_url pool_type week_num) = Events evs"
      by (cases "net (target_url base_url pool_type week_num)") auto
    with Inr have "collect_games evs = Inr gs" by simp
    from collect_games_rows [OF this g] evs show ?thesis by simp
  qed
qed

text \<open>
  Claim C5, as amended. Every row \<open>get_sports_data\<close> returns is a dummy row, with
  winner \<open>TBD\<close> and status \<open>Scheduled\<close>, or the row of an event of the feed; for
  such a row the winner is \<open>TBD\<close> when the state token is not \<open>post\<close>, and differs
  from \<open>TBD\<close> when the token is \<open>post\<close> and neither competitor bears the display
  name \<open>TBD\<close>.
\<close>

theorem winner_tbd_unless_final:
  assumes "g \<in> set (get_sports_data net base_url pool_type week_num)"
  shows "(g \<in> set (dummy_games pool_type) \<and> winner g = ''TBD'' \<and> status g = ''Scheduled'')
         \<or> (\<exists>ev \<in> set (feed_events (net (target_url base_url pool_type week_num))).
               event_game ev = Inr g
               \<and> (ev_state ev \<noteq> ''post'' \<longrightarrow> winner g = ''TBD'')
               \<and> (ev_state ev = ''post'' \<and> \<not> competitor_named ''TBD'' ev
                    \<longrightarrow> winner g \<noteq> ''TBD''))"
proof -
  from get_sports_data_rows [OF assms] show ?thesis
  proof
    assume d: "g \<in> set (dummy_games pool_type)"
    then have "winner g = ''TBD'' \<and> status g = ''Scheduled''"
      by (auto simp: dummy_games_def dummy_game_def)
    with d show ?thesis by blast
  next
    assume "\<exists>ev \<in> set (feed_events (net (target_url base_url pool_type week_num))).
               event_game ev = Inr g"
    then obtain ev where ev: "ev \<in> set (feed_events (net (target_url base_url pool_type week_num)))"
      "event_game ev = Inr g" by blast
    from ev(2) have "(ev_state ev \<noteq> ''post'' \<longrightarrow> winner g = ''TBD'')
               \<and> (ev_state ev = ''post'' \<and> \<not> competitor_named ''TBD'' ev
                    \<longrightarrow> winner g \<noteq> ''TBD'')"
      by (rule event_game_Inr) (auto simp: competitor_named_def)
    with ev show ?thesis by blast
  qed
qed

theorem winner_tbd_unless_final_witness:
  "eagles_giants_final
     \<in> set (get_sports_data (\<lambda>url. Events [eagles_giants_event, jets_bills_event])
              ''http://feed'' ''NFL Survivor'' (Some ''3''))
   \<and> ev_state eagles_giants_event = ''post''
   \<and> \<not> competitor_named ''TBD'' eagles_giants_event
   \<and> winner eagles_giants_final = ''Eagles''"
proof -
  have a: "eagles_giants_final
     \<in> set (get_sports_data (\<lambda>url. Events [eagles_giants_event, jets_bills_event])
              ''http://feed'' ''NFL Survivor'' (Some ''3''))"
    by code_simp
  have b: "ev_state eagles_giants_event = ''post''
           \<and> \<not> competitor_named ''TBD'' eagles_giants_event
           \<and> winner eagles_giants_final = ''Eagles''"
    by code_simp
  from winner_tbd_unless_final [OF a] a b show ?thesis by blast
qed

text \<open>
  Claim C5 as stated fails where the winning side of a finished game bears the display
  name \<open>TBD\<close>: the state token is \<open>post\<close> and the winner column reads \<open>TBD\<close>.
\<close>

theorem tbd_named_winner:
  "event_game tbd_wins_event
     = Inr \<lparr> team_a = ''TBD'', team_b = ''Duke'', winner = ''TBD'', status = ''Final'',
             score = ''3-1'', locked = True \<rparr>
   \<and> ev_state tbd_wins_event = ''post''"
  by code_simp

text \<open>
  Claim C6, as amended. The row of an event whose state token is \<open>post\<close> has the
  winner \<open>Tie\<close> when the two scores are equal and otherwise the display name of the
  side with the strictly greater score; so, when neither competitor bears the display
  name \<open>Tie\<close>, the winner is \<open>Tie\<close> exactly when the scores are equal.
\<close>

theorem final_winner_by_score:
  assumes "event_game ev = Inr g" and "ev_state ev = ''post''"
  shows "\<exists>c0 c1 s0 s1.
           take 2 (ev_competitors ev) = [c0, c1]
           \<and> py_int (comp_score c0) = Some s0 \<and> py_int (comp_score c1) = Some s1
           \<and> (s0 = s1 \<longrightarrow> winner g = ''Tie'')
           \<and> (s0 > s1 \<longrightarrow> winner g = display_name c0)
           \<and> (s1 > s0 \<longrightarrow> winner g = display_name c1)
           \<and> (\<not> competitor_named ''Tie'' ev \<longrightarrow> (winner g = ''Tie'') = (s0 = s1))"
  using assms(1)
proof (rule event_game_Inr)
  fix d st c0 c1 cs s0 s1
  assume a: "ev = RawEvent d st (c0 # c1 # cs)"
    "py_int (comp_score c0) = Some s0" "py_int (comp_score c1) = Some s1"
    "g = \<lparr> team_a = display_name c0, team_b = display_name c1,
           winner = (if st = ''post'' then
                       (if s0 > s1 then display_name c0
                        else if s1 > s0 then display_name c1 else ''Tie'')
                     else ''TBD''),
           status = d, score = py_str_int s0 @ ''-'' @ py_str_int s1,
           locked = (st \<in> set [''in'', ''post'']) \<rparr>"
  with assms(2) have st: "st = ''post''" by simp
  have "take 2 (ev_competitors ev) = [c0, c1]" using a(1) by (simp add: numeral_2_eq_2)
  moreover have "(s0 = s1 \<longrightarrow> winner g = ''Tie'')
           \<and> (s0 > s1 \<longrightarrow> winner g = display_name c0)
           \<and> (s1 > s0 \<longrightarrow> winner g = display_name c1)
           \<and> (\<not> competitor_named ''Tie'' ev \<longrightarrow> (winner g = ''Tie'') = (s0 = s1))"
    using a(1,4) st by (auto simp: competitor_named_def numeral_2_eq_2)
  ultimately show ?thesis using a(2,3) by blast
qed

theorem final_winner_by_score_witness:
  "event_game jets_bills_event = Inr jets_bills_final
   \<and> ev_state jets_bills_event = ''post''
   \<and> \<not> competitor_named ''Tie'' jets_bills_event
   \<and> winner jets_bills_final = ''Tie''"
proof -
  have a: "event_game jets_bills_event = Inr jets_bills_final" by code_simp
  have b: "ev_state jets_bills_event = ''post''" by code_simp
  have c: "\<not> competitor_named ''Tie'' jets_bills_event \<and> winner jets_bills_final = ''Tie''"
    by code_simp
  from final_winner_by_score [OF a b] a b c show ?thesis by blast
qed

text \<open>
  Claim C6 as stated fails where the side with the greater score bears the display name
  \<open>Tie\<close>: the winner column reads \<open>Tie\<close> and the scores, 3 and 1, differ.
\<close>

theorem tie_named_winner:
  "event_game tie_wins_event
     = Inr \<lparr> team_a = ''Tie'', team_b = ''Bills'', winner = ''Tie'', status = ''Final'',
             score = ''3-1'', locked = True \<rparr>
   \<and> ev_state tie_wins_event = ''post''
   \<and> py_int ''3'' = Some 3 \<and> py_int ''1'' = Some 1"
  by code_simp

section \<open>Teams a player may still pick\<close>

lemma set_available_teams:
  "set (available_teams past games) =
     {t. \<exists>g \<in> set games. \<not> locked g \<and> t \<notin> set past
           \<and> (t = team_a g \<or> (t = team_b g \<and> t \<noteq> ''Bye''))}"
  by (induction games) auto

lemma set_team_options: "set (team_options past games) = set (available_teams past games)"
  by (simp add: team_options_def)

lemma bye_offered_iff:
  "''Bye'' \<in> set (team_options past games)
     = (\<exists>g \<in> set games. \<not> locked g \<and> team_a g = ''Bye'' \<and> ''Bye'' \<notin> set past)"
  unfolding set_team_options set_available_teams by auto

lemma bye_not_offered_on_dummy_games:
  "''Bye'' \<notin> set (team_options past (dummy_games pool_type))"
  unfolding bye_offered_iff
  by (auto simp: dummy_games_def dummy_game_def nfl_teams_def ncaa_teams_def)

text \<open>
  Claim C3 fails on the code. Only the test of Team B excludes the placeholder \<open>Bye\<close>:
  a feed event whose first competitor bears the display name \<open>Bye\<close> gives a row with
  \<open>Bye\<close> as Team A, and the pick form offers \<open>Bye\<close>.
\<close>

theorem bye_offered_as_team_a:
  "get_sports_data (\<lambda>url. bye_first_feed) ''http://feed'' ''March Madness (NCAA)'' None
     = [\<lparr> team_a = ''Bye'', team_b = ''Duke'', winner = ''TBD'', status = ''Scheduled'',
          score = ''0-0'', locked = False \<rparr>]
   \<and> team_options []
        [\<lparr> team_a = ''Bye'', team_b = ''Duke'', winner = ''TBD'', status = ''Scheduled'',
           score = ''0-0'', locked = False \<rparr>] = [''Bye'', ''Duke'']"
  by code_simp

lemma appearances_one:
  assumes "appearances t games \<le> 1" "g \<in> set games" "h \<in> set games"
    "team_a g = t \<or> team_b g = t" "team_a h = t \<or> team_b h = t"
  shows "g = h"
proof (rule ccontr)
  assume ne: "g \<noteq> h"
  let ?P = "\<lambda>g. team_a g = t \<or> team_b g = t"
  have "g \<in> set (filter ?P games)" "h \<in> set (filter ?P games)"
    using assms by auto
  with ne have "{g, h} \<subseteq> set (filter ?P games)" by simp
  then have "card {g, h} \<le> card (set (filter ?P games))"
    by (intro card_mono) auto
  also have "\<dots> \<le> length (filter ?P games)" by (rule card_length)
  finally show False using ne assms(1) by (simp add: appearances_def)
qed

text \<open>
  Claim C4, as amended. Every team the pick form offers is absent, as an exact string,
  from the player's past picks and is a side of at least one row that is not locked; when
  the team plays in at most one row of the slate, every row it is a side of is not locked.
\<close>

theorem team_options_sound:
  assumes "t \<in> set (team_options past games)"
  shows "t \<notin> set past
         \<and> (\<exists>g \<in> set games. \<not> locked g \<and> (team_a g = t \<or> team_b g = t))
         \<and> (appearances t games \<le> 1 \<longrightarrow>
              (\<forall>g \<in> set games. team_a g = t \<or> team_b g = t \<longrightarrow> \<not> locked g))"
proof -
  from assms obtain g where g: "g \<in> set games" "\<not> locked g" "t \<notin> set past"
      "team_a g = t \<or> team_b g = t"
    unfolding set_team_options set_available_teams by auto
  have "\<not> locked h" if "appearances t games \<le> 1" "h \<in> set games"
      "team_a h = t \<or> team_b h = t" for h
    using appearances_one [OF that(1) g(1) that(2) g(4) that(3)] g(2) by simp
  with g show ?thesis by blast
qed

theorem team_options_sound_witness:
  "''Cowboys'' \<in> set (team_options [''Eagles'', ''Chiefs''] eagles_cowboys_slate)
   \<and> team_options [''Eagles'', ''Chiefs''] eagles_cowboys_slate = [''Cowboys'']
   \<and> appearances ''Cowboys'' eagles_cowboys_slate \<le> 1
   \<and> ''Cowboys'' \<notin> set [''Eagles'', ''Chiefs'']"
proof -
  have a: "''Cowboys'' \<in> set (team_options [''Eagles'', ''Chiefs''] eagles_cowboys_slate)"
    by code_simp
  have b: "team_options [''Eagles'', ''Chiefs''] eagles_cowboys_slate = [''Cowboys'']"
    by code_simp
  have c: "appearances ''Cowboys'' eagles_cowboys_slate \<le> 1"
    by code_simp
  from team_options_sound [OF a] a b c show ?thesis by blast
qed

text \<open>
  Claim C4 as stated fails where a team is a side of two rows, one locked and one not:
  the team is offered although it appears in a locked row.
\<close>

theorem team_in_locked_game_offered:
  "''Duke'' \<in> set (team_options [] [duke_unc_live, duke_kansas_next])
   \<and> team_a duke_unc_live = ''Duke'' \<and> locked duke_unc_live"
  by code_simp

section \<open>The status of a pick\<close>

lemma py_in_sublist: "py_in sub s = sublist sub s"
  by (induction s) (simp_all add: sublist_Cons_right)

lemma py_in_empty: "py_in [] s"
  by (cases s) simp_all

lemma all_ok_values: "all_ok (map (\<lambda>x. Inr (f x)) xs) = Inr (map f xs)"
  by (induction xs) simp_all

lemma str_contains_literal:
  assumes "\<not> list_ex re_special pick" and "is_ascii pick" and "is_ascii s"
  shows "str_contains lib pick s = Inr (contains_ci s pick)"
  using assms
  by (cases "pick = []")
     (simp_all add: str_contains_def is_ascii_def contains_ci_def py_lower_def py_in_empty)

lemma str_contains_no_pick: "str_contains lib [] s = Inr True"
  by (simp add: str_contains_def)

lemma mask_filter:
  "map fst (filter (\<lambda>(g, m). m)
      (zip gs (map (\<lambda>(a, b). a \<or> b) (zip (map p gs) (map q gs)))))
     = filter (\<lambda>g. p g \<or> q g) gs"
  by (induction gs) simp_all

lemma select_match_literal:
  assumes "\<not> list_ex re_special pick" and "is_ascii pick" and "ascii_slate games"
  shows "select_match lib pick games
           = Inr (filter (\<lambda>g. contains_ci (team_a g) pick \<or> contains_ci (team_b g) pick) games)"
proof -
  have a: "map (\<lambda>g. str_contains lib pick (team_a g)) games
             = map (\<lambda>g. Inr (contains_ci (team_a g) pick)) games"
    using assms by (simp add: ascii_slate_def list_all_iff str_contains_literal)
  have b: "map (\<lambda>g. str_contains lib pick (team_b g)) games
             = map (\<lambda>g. Inr (contains_ci (team_b g) pick)) games"
    using assms by (simp add: ascii_slate_def list_all_iff str_contains_literal)
  show ?thesis
    unfolding select_match_def a b by (simp add: all_ok_values mask_filter)
qed

lemma select_match_no_pick: "select_match lib [] games = Inr games"
proof -
  have "map fst (filter (\<lambda>(g, m). m)
          (zip games (map (\<lambda>(a, b). a \<or> b)
             (zip (map (\<lambda>g. True) games) (map (\<lambda>g. True) games))))) = games"
    by (simp add: mask_filter)
  then show ?thesis
    by (simp add: select_match_def str_contains_no_pick all_ok_values)
qed

lemma find_filter_hd:
  "find P xs = (case filter P xs of [] \<Rightarrow> None | x # _ \<Rightarrow> Some x)"
  by (induction xs) simp_all

lemma pick_status_literal:
  assumes "\<not> list_ex re_special pick" and "is_ascii pick" and "ascii_slate games"
  shows "pick_status lib games pick = Inr (classify_by_status games pick)"
proof -
  let ?P = "\<lambda>g. contains_ci (team_a g) pick \<or> contains_ci (team_b g) pick"
  have p: "str_lower lib pick = py_lower pick"
    using assms(2) by (simp add: str_lower_def)
  show ?thesis
  proof (cases "filter ?P games")
    case Nil
    then show ?thesis
      by (simp add: pick_status_def select_match_literal [OF assms] classify_by_status_def
            find_filter_hd)
  next
    case (Cons g rest)
    then have "g \<in> set (filter ?P games)" by simp
    then have "is_ascii (winner g)"
      using assms(3) by (simp add: ascii_slate_def list_all_iff)
    then have w: "str_lower lib (winner g) = py_lower (winner g)"
      by (simp add: str_lower_def)
    from Cons show ?thesis
      by (simp add: pick_status_def select_match_literal [OF assms] classify_by_status_def
            find_filter_hd contains_ci_def p w)
  qed
qed

text \<open>
  The loop strips each cell before it classifies it: on ASCII cells whose stripped text
  holds no special character, the column is the classification of the stripped cells.
\<close>

lemma is_ascii_strip: "is_ascii s \<Longrightarrow> is_ascii (py_strip s)"
proof -
  assume a: "is_ascii s"
  have "set (py_strip s) \<subseteq> set s"
  proof
    fix x assume "x \<in> set (py_strip s)"
    then have "x \<in> set (dropWhile is_space (rev (dropWhile is_space s)))"
      by (simp add: py_strip_def)
    then have "x \<in> set (rev (dropWhile is_space s))" by (rule set_dropWhileD)
    then have "x \<in> set (dropWhile is_space s)" by simp
    then show "x \<in> set s" by (rule set_dropWhileD)
  qed
  with a show ?thesis by (auto simp: is_ascii_def list_all_iff)
qed

lemma calculated_status_ascii:
  assumes "ascii_slate games"
    and "list_all (\<lambda>r. is_ascii (row_get r selected_week [])
                        \<and> \<not> list_ex re_special (py_strip (row_get r selected_week []))) df"
  shows "calculated_status lib games df selected_week
           = Inr (map (\<lambda>r. classify_by_status games (py_strip (row_get r selected_week []))) df)"
proof -
  have "map (\<lambda>r. pick_status lib games (str_strip lib (row_get r selected_week []))) df
          = map (\<lambda>r. Inr (classify_by_status games (py_strip (row_get r selected_week [])))) df"
    using assms
    by (simp add: list_all_iff str_strip_def pick_status_literal is_ascii_strip)
  then show ?thesis
    unfolding calculated_status_def by (simp only: all_ok_values)
qed

text \<open>
  The slate of two finished games, Eagles 24-17 Giants and Jets 10-10 Bills: the picks
  Eagles, Giants, Jets and Dolphins.
\<close>

lemma scenario_statuses:
  "map (pick_status sample_lib [eagles_giants_final, jets_bills_final])
     [''Eagles'', ''Giants'', ''Jets'', ''Dolphins'']
   = [Inr ''SAFE'', Inr ''ELIMINATED'', Inr ''TIE'', Inr ''Unknown'']"
  by code_simp




lemma pick_status_no_pick:
  "pick_status lib games [] =
     Inr (case games of
            [] \<Rightarrow> ''Unknown''
          | g # _ \<Rightarrow> if status g = ''Final'' then ''SAFE'' else ''Pending'')"
  by (cases games)
     (simp_all add: pick_status_def select_match_no_pick str_lower_def is_ascii_def
        py_lower_def py_in_empty)

text \<open>
  Claim C1 fails on the code. The empty pick is found in every team name, so it takes the
  first row of the games: a player without a pick is \<open>SAFE\<close> when that game is final
  (and \<open>Pending\<close> when it is not); \<open>Unknown\<close> needs an empty list of games.
\<close>

theorem no_pick_marked_safe:
  "pick_status lib [eagles_giants_final] [] = Inr ''SAFE''
   \<and> calculated_status lib [eagles_giants_final]
        [[(''Name'', ''di''), (''Status'', ''Alive''), (''Week 1'', [])]] ''Week 1''
       = Inr [''SAFE'']"
  by (simp add: calculated_status_def row_get_def str_strip_def is_ascii_def py_strip_def
        pick_status_no_pick eagles_giants_final_def)

end
